theory Spec2Isabelle
  imports Complex_Main "HOL-Library.Finite_Map"
begin

section \<open>JSON values and the JavaScript operations the code applies to them\<close>

text \<open>
  Everything the cache persists goes through \<^verbatim>\<open>JSON.stringify\<close> and comes back through
  \<^verbatim>\<open>JSON.parse\<close>, so the values of the storage layer are JSON values: the values that
  \<^verbatim>\<open>JSON.parse\<close> reads back from a text that \<^verbatim>\<open>JSON.stringify\<close> wrote. The numbers of
  such a value are finite (\<^verbatim>\<open>JSON.stringify\<close> writes \<^verbatim>\<open>null\<close> for \<^verbatim>\<open>NaN\<close> and for the
  infinities); they are rational numbers here, and every finite double is one. The code of
  the storage layer computes with none of them, it tests them for zero only.
  \<^verbatim>\<open>Infinity\<close>, which \<^verbatim>\<open>JSON.parse\<close> yields for a literal beyond the double range such
  as \<^verbatim>\<open>1e999\<close>, is not a value of this type: no text that \<^verbatim>\<open>JSON.stringify\<close> writes
  holds such a literal. An object is a finite map from keys to values: two objects with the
  same own properties are the same value, and the enumeration order of the keys is not
  modelled. \<^verbatim>\<open>undefined\<close> is \<open>None\<close> of \<open>json option\<close>.
\<close>

datatype json =
    JNull
  | JBool bool
  | JNum rat
  | JStr string
  | JArr "json list"
  | JObj "(string, json) fmap"

type_synonym object = "(string, json) fmap"

datatype error = TypeError | SyntaxError | QuotaExceededError | NetworkError

text \<open>Truthiness, as \<^verbatim>\<open>if (v)\<close>, \<^verbatim>\<open>!v\<close> and \<^verbatim>\<open>a || b\<close> test it.\<close>

fun truthy :: "json \<Rightarrow> bool" where
  "truthy JNull = False"
| "truthy (JBool b) = b"
| "truthy (JNum n) = (n \<noteq> 0)"
| "truthy (JStr s) = (s \<noteq> [])"
| "truthy (JArr xs) = True"
| "truthy (JObj m) = True"

fun truthy_opt :: "json option \<Rightarrow> bool" where
  "truthy_opt None = False"
| "truthy_opt (Some v) = truthy v"

text \<open>\<^verbatim>\<open>a || b\<close> where \<open>a\<close> may be undefined.\<close>

fun or_else :: "json option \<Rightarrow> json \<Rightarrow> json" where
  "or_else None d = d"
| "or_else (Some v) d = (if truthy v then v else d)"

text \<open>
  Reading a property \<^verbatim>\<open>v.k\<close>, for a key \<open>k\<close> that no prototype defines (the code reads
  \<^verbatim>\<open>id\<close>, \<^verbatim>\<open>success\<close> and \<^verbatim>\<open>project\<close>): \<^verbatim>\<open>null.k\<close> throws a TypeError, a
  primitive or an array has no such property, an object is looked up.
\<close>

fun get_prop :: "json \<Rightarrow> string \<Rightarrow> error + json option" where
  "get_prop JNull k = Inl TypeError"
| "get_prop (JObj m) k = Inr (fmlookup m k)"
| "get_prop (JBool b) k = Inr None"
| "get_prop (JNum n) k = Inr None"
| "get_prop (JStr s) k = Inr None"
| "get_prop (JArr xs) k = Inr None"

text \<open>The decimal numeral of an array index, as a property key.\<close>

fun digit :: "nat \<Rightarrow> char" where
  "digit n = char_of (48 + n)"

fun dec :: "nat \<Rightarrow> string" where
  "dec n = (if n < 10 then [digit n] else dec (n div 10) @ [digit (n mod 10)])"

text \<open>
  The own enumerable properties that an object spread \<^verbatim>\<open>{...v}\<close> copies: those of an
  object; the indexed elements of an array; the indexed characters of a string; nothing for
  \<^verbatim>\<open>null\<close>, a boolean or a number.
\<close>

fun own_props :: "json \<Rightarrow> object" where
  "own_props (JObj m) = m"
| "own_props (JArr xs) = fmap_of_list (zip (map dec [0..<length xs]) xs)"
| "own_props (JStr s) = fmap_of_list (zip (map dec [0..<length s]) (map (\<lambda>c. JStr [c]) s))"
| "own_props JNull = fmempty"
| "own_props (JBool b) = fmempty"
| "own_props (JNum n) = fmempty"

section \<open>The storage medium\<close>

text \<open>
  \<^verbatim>\<open>localStorage\<close> maps keys to texts. The code only ever parses a stored text and only
  ever stores the serialisation of a value, so a text is represented by what
  \<^verbatim>\<open>JSON.parse\<close> makes of it: the value it denotes, or a text that is not JSON (kept
  verbatim), on which \<^verbatim>\<open>JSON.parse\<close> throws a SyntaxError. The texts of the model are
  thus the serialisations that \<^verbatim>\<open>JSON.stringify\<close> writes, from which \<^verbatim>\<open>JSON.parse\<close>
  reads the value back, and the texts that do not parse. The keys of the module carry its
  prefix and the module is their only writer: the media that its writes produce are the
  set \<open>module_states\<close> below.
\<close>

datatype stored = Serialized json | Garbage string

fun JSON_parse :: "stored \<Rightarrow> error + json" where
  "JSON_parse (Serialized v) = Inr v"
| "JSON_parse (Garbage s) = Inl SyntaxError"

definition JSON_stringify :: "json \<Rightarrow> stored" where
  "JSON_stringify v = Serialized v"

text \<open>
  \<^verbatim>\<open>setItem\<close> may throw (the quota of the medium): \<open>accepts\<close> says which writes the medium
  takes, given its present contents.
\<close>

record local_storage =
  items :: "(string, stored) fmap"
  accepts :: "(string, stored) fmap \<Rightarrow> string \<Rightarrow> stored \<Rightarrow> bool"

definition getItem :: "local_storage \<Rightarrow> string \<Rightarrow> stored option" where
  "getItem ls key = fmlookup (items ls) key"

definition setItem :: "local_storage \<Rightarrow> string \<Rightarrow> stored \<Rightarrow> error + local_storage" where
  "setItem ls key t =
     (if accepts ls (items ls) key t
      then Inr (ls\<lparr>items := fmupd key t (items ls)\<rparr>)
      else Inl QuotaExceededError)"

text \<open>Two media for concrete runs: one that takes every write, one that takes none.\<close>

definition unlimited :: "(string, stored) fmap \<Rightarrow> string \<Rightarrow> stored \<Rightarrow> bool" where
  "unlimited m key t = True"

definition exhausted :: "(string, stored) fmap \<Rightarrow> string \<Rightarrow> stored \<Rightarrow> bool" where
  "exhausted m key t = False"

section \<open>storage.js\<close>

definition STORAGE_PREFIX :: string where
  "STORAGE_PREFIX = ''awesome_repos_''"

definition KEYS_PROJECTS :: string where
  "KEYS_PROJECTS = STORAGE_PREFIX @ ''projects''"

definition KEYS_CATEGORIES :: string where
  "KEYS_CATEGORIES = STORAGE_PREFIX @ ''categories''"

definition KEYS_TAGS :: string where
  "KEYS_TAGS = STORAGE_PREFIX @ ''tags''"

definition KEYS_FAVORITES :: string where
  "KEYS_FAVORITES = STORAGE_PREFIX @ ''favorites''"

definition KEYS_SETTINGS :: string where
  "KEYS_SETTINGS = STORAGE_PREFIX @ ''settings''"

text \<open>
  \<^verbatim>\<open>get(key, defaultValue)\<close>: the \<^verbatim>\<open>try\<close> body returns the default when nothing is stored
  and the parsed value otherwise; the \<^verbatim>\<open>catch\<close> turns every error of the body into the
  default.
\<close>

definition get_body :: "local_storage \<Rightarrow> string \<Rightarrow> json \<Rightarrow> error + json" where
  "get_body ls key defaultValue =
     (case getItem ls key of
        None \<Rightarrow> Inr defaultValue
      | Some item \<Rightarrow> JSON_parse item)"

definition get :: "local_storage \<Rightarrow> string \<Rightarrow> json \<Rightarrow> json" where
  "get ls key defaultValue =
     (case get_body ls key defaultValue of
        Inr v \<Rightarrow> v
      | Inl e \<Rightarrow> defaultValue)"

text \<open>
  \<^verbatim>\<open>set(key, value)\<close>: true and the updated medium when the write is taken, false and the
  medium as it was when \<^verbatim>\<open>setItem\<close> throws.
\<close>

definition set_value :: "local_storage \<Rightarrow> string \<Rightarrow> json \<Rightarrow> bool \<times> local_storage" where
  "set_value ls key v =
     (case setItem ls key (JSON_stringify v) of
        Inr ls' \<Rightarrow> (True, ls')
      | Inl e \<Rightarrow> (False, ls))"

text \<open>
  \<^verbatim>\<open>remove(key)\<close> and \<^verbatim>\<open>clear()\<close>, which removes the seven keys of the module.
\<close>

definition KEYS_ADMIN_AUTH :: string where
  "KEYS_ADMIN_AUTH = STORAGE_PREFIX @ ''admin_auth''"

definition KEYS_DATA_VERSION :: string where
  "KEYS_DATA_VERSION = STORAGE_PREFIX @ ''data_version''"

definition removeItem :: "local_storage \<Rightarrow> string \<Rightarrow> local_storage" where
  "removeItem ls key = ls\<lparr>items := fmdrop key (items ls)\<rparr>"

definition remove_key :: "local_storage \<Rightarrow> string \<Rightarrow> local_storage" where
  "remove_key ls key = removeItem ls key"

definition clear_keys :: "local_storage \<Rightarrow> local_storage" where
  "clear_keys ls =
     fold (\<lambda>key l. remove_key l key)
       [KEYS_PROJECTS, KEYS_CATEGORIES, KEYS_TAGS, KEYS_FAVORITES, KEYS_SETTINGS,
        KEYS_ADMIN_AUTH, KEYS_DATA_VERSION] ls"

definition getProjects :: "local_storage \<Rightarrow> json" where
  "getProjects ls = get ls KEYS_PROJECTS (JArr [])"

definition setProjects :: "local_storage \<Rightarrow> json \<Rightarrow> local_storage" where
  "setProjects ls projects = snd (set_value ls KEYS_PROJECTS projects)"

definition getCategories :: "local_storage \<Rightarrow> json" where
  "getCategories ls = get ls KEYS_CATEGORIES (JArr [])"

definition setCategories :: "local_storage \<Rightarrow> json \<Rightarrow> local_storage" where
  "setCategories ls categories = snd (set_value ls KEYS_CATEGORIES categories)"

definition getTags :: "local_storage \<Rightarrow> json" where
  "getTags ls = get ls KEYS_TAGS (JArr [])"

definition setTags :: "local_storage \<Rightarrow> json \<Rightarrow> local_storage" where
  "setTags ls tags = snd (set_value ls KEYS_TAGS tags)"

definition getFavorites :: "local_storage \<Rightarrow> json" where
  "getFavorites ls = get ls KEYS_FAVORITES (JArr [])"

definition default_settings :: json where
  "default_settings =
     JObj (fmap_of_list
       [(''theme'', JStr ''dark''), (''sortBy'', JStr ''stars''), (''sortOrder'', JStr ''desc'')])"

definition getSettings :: "local_storage \<Rightarrow> json" where
  "getSettings ls = get ls KEYS_SETTINGS default_settings"

definition setSettings :: "local_storage \<Rightarrow> json \<Rightarrow> local_storage" where
  "setSettings ls settings =
     snd (set_value ls KEYS_SETTINGS (JObj (own_props (getSettings ls) ++\<^sub>f own_props settings)))"

text \<open>
  \<^verbatim>\<open>addProject(project)\<close>. The three assignments of lines 100 to 102, on an object:
  \<^verbatim>\<open>id\<close> and \<^verbatim>\<open>created_at\<close> are kept when truthy, \<^verbatim>\<open>updated_at\<close> is always overwritten.
  \<open>now\<close> is \<^verbatim>\<open>Date.now().toString()\<close> and \<open>today\<close> is
  \<^verbatim>\<open>new Date().toISOString().split('T')[0]\<close>: the clock is an input.
\<close>

definition assign_fields :: "string \<Rightarrow> string \<Rightarrow> object \<Rightarrow> object" where
  "assign_fields now today project =
     (let p1 = fmupd ''id'' (or_else (fmlookup project ''id'') (JStr now)) project;
          p2 = fmupd ''created_at'' (or_else (fmlookup p1 ''created_at'') (JStr today)) p1
      in fmupd ''updated_at'' (JStr today) p2)"

text \<open>
  The assignments on any value (the module is strict): reading a property of \<^verbatim>\<open>null\<close>
  throws, creating a property on a primitive throws; an array takes the three properties,
  which its serialisation then drops.
\<close>

fun assigned :: "string \<Rightarrow> string \<Rightarrow> json \<Rightarrow> error + json" where
  "assigned now today (JObj m) = Inr (JObj (assign_fields now today m))"
| "assigned now today (JArr xs) = Inr (JArr xs)"
| "assigned now today JNull = Inl TypeError"
| "assigned now today (JBool b) = Inl TypeError"
| "assigned now today (JNum n) = Inl TypeError"
| "assigned now today (JStr s) = Inl TypeError"

text \<open>\<^verbatim>\<open>projects.push\<close> throws a TypeError when the stored value is not an array.\<close>

definition addProject ::
  "string \<Rightarrow> string \<Rightarrow> local_storage \<Rightarrow> json \<Rightarrow> error + (json \<times> local_storage)" where
  "addProject now today ls project =
     (case assigned now today project of
        Inl e \<Rightarrow> Inl e
      | Inr project' \<Rightarrow>
          (case getProjects ls of
             JArr projects \<Rightarrow> Inr (project', setProjects ls (JArr (projects @ [project'])))
           | _ \<Rightarrow> Inl TypeError))"

text \<open>
  \<^verbatim>\<open>projects.findIndex(p => p.id === id)\<close>: the first index whose element has the string
  \<open>pid\<close> as its \<^verbatim>\<open>id\<close>; a \<^verbatim>\<open>null\<close> element met before it throws.
\<close>

fun findIndex_id :: "string \<Rightarrow> json list \<Rightarrow> error + nat option" where
  "findIndex_id pid [] = Inr None"
| "findIndex_id pid (p # ps) =
     (case get_prop p ''id'' of
        Inl e \<Rightarrow> Inl e
      | Inr v \<Rightarrow>
          if v = Some (JStr pid) then Inr (Some 0)
          else (case findIndex_id pid ps of
                  Inl e \<Rightarrow> Inl e
                | Inr None \<Rightarrow> Inr None
                | Inr (Some i) \<Rightarrow> Inr (Some (Suc i))))"

text \<open>
  \<^verbatim>\<open>updateProject(id, updates)\<close>: the entry found is replaced by the spread of the entry,
  then of the updates, then \<^verbatim>\<open>updated_at\<close>; the new entry is returned, whether or not the
  write was taken. No entry: \<^verbatim>\<open>null\<close>, and nothing is written.
\<close>

definition merged :: "string \<Rightarrow> json \<Rightarrow> json \<Rightarrow> json" where
  "merged today entry updates =
     JObj (fmupd ''updated_at'' (JStr today) (own_props entry ++\<^sub>f own_props updates))"

definition updateProject ::
  "string \<Rightarrow> local_storage \<Rightarrow> string \<Rightarrow> json \<Rightarrow> error + (json \<times> local_storage)" where
  "updateProject today ls pid updates =
     (case getProjects ls of
        JArr projects \<Rightarrow>
          (case findIndex_id pid projects of
             Inl e \<Rightarrow> Inl e
           | Inr None \<Rightarrow> Inr (JNull, ls)
           | Inr (Some index) \<Rightarrow>
               (let entry = merged today (projects ! index) updates
                in Inr (entry, setProjects ls (JArr (projects[index := entry])))))
      | _ \<Rightarrow> Inl TypeError)"

text \<open>
  \<^verbatim>\<open>getProjects().filter(p => p.id !== id)\<close>: a \<^verbatim>\<open>null\<close> element throws, a value that is
  not an array has no \<^verbatim>\<open>filter\<close>.
\<close>

fun filter_other_ids :: "string \<Rightarrow> json list \<Rightarrow> error + json list" where
  "filter_other_ids pid [] = Inr []"
| "filter_other_ids pid (p # ps) =
     (case get_prop p ''id'' of
        Inl e \<Rightarrow> Inl e
      | Inr v \<Rightarrow>
          (case filter_other_ids pid ps of
             Inl e \<Rightarrow> Inl e
           | Inr rest \<Rightarrow> Inr (if v = Some (JStr pid) then rest else p # rest)))"

definition deleteProject :: "local_storage \<Rightarrow> string \<Rightarrow> error + local_storage" where
  "deleteProject ls pid =
     (case getProjects ls of
        JArr projects \<Rightarrow>
          (case filter_other_ids pid projects of
             Inl e \<Rightarrow> Inl e
           | Inr kept \<Rightarrow> Inr (setProjects ls (JArr kept)))
      | _ \<Rightarrow> Inl TypeError)"

text \<open>
  \<^verbatim>\<open>favorites.indexOf(projectId)\<close> on an array, for a string: the first index of an element
  strictly equal to it. \<^verbatim>\<open>favorites.splice(index, 1)\<close> removes that one element.
\<close>

fun indexOf :: "json list \<Rightarrow> string \<Rightarrow> nat option" where
  "indexOf [] s = None"
| "indexOf (x # xs) s =
     (if x = JStr s then Some 0
      else (case indexOf xs s of None \<Rightarrow> None | Some i \<Rightarrow> Some (Suc i)))"

definition splice1 :: "nat \<Rightarrow> json list \<Rightarrow> json list" where
  "splice1 index xs = take index xs @ drop (Suc index) xs"

text \<open>
  \<^verbatim>\<open>toggleFavorite(projectId)\<close>. A stored value that is not an array has no \<^verbatim>\<open>push\<close> and
  no \<^verbatim>\<open>splice\<close> (and, but for a string, no \<^verbatim>\<open>indexOf\<close>): a TypeError, before any write.
\<close>

definition toggleFavorite :: "local_storage \<Rightarrow> string \<Rightarrow> error + (bool \<times> local_storage)" where
  "toggleFavorite ls projectId =
     (case getFavorites ls of
        JArr favorites \<Rightarrow>
          (case indexOf favorites projectId of
             None \<Rightarrow>
               Inr (True, snd (set_value ls KEYS_FAVORITES (JArr (favorites @ [JStr projectId]))))
           | Some index \<Rightarrow>
               Inr (False, snd (set_value ls KEYS_FAVORITES (JArr (splice1 index favorites)))))
      | _ \<Rightarrow> Inl TypeError)"

text \<open>Substring test, \<^verbatim>\<open>s.includes(q)\<close> on strings.\<close>

fun starts_with :: "string \<Rightarrow> string \<Rightarrow> bool" where
  "starts_with s [] = True"
| "starts_with [] (q # qs) = False"
| "starts_with (c # cs) (q # qs) = (c = q \<and> starts_with cs qs)"

fun str_includes :: "string \<Rightarrow> string \<Rightarrow> bool" where
  "str_includes [] q = (q = [])"
| "str_includes (c # cs) q = (starts_with (c # cs) q \<or> str_includes cs q)"

text \<open>
  \<^verbatim>\<open>isFavorite(projectId)\<close>: \<^verbatim>\<open>includes\<close> is membership on an array and the substring
  test on a string; other values have no such method.
\<close>

definition isFavorite :: "local_storage \<Rightarrow> string \<Rightarrow> error + bool" where
  "isFavorite ls projectId =
     (case getFavorites ls of
        JArr favorites \<Rightarrow> Inr (JStr projectId \<in> set favorites)
      | JStr s \<Rightarrow> Inr (str_includes s projectId)
      | _ \<Rightarrow> Inl TypeError)"

text \<open>\<^verbatim>\<open>exportAllData()\<close>; \<open>now\<close> is \<^verbatim>\<open>new Date().toISOString()\<close>.\<close>

definition exportAllData :: "string \<Rightarrow> local_storage \<Rightarrow> object" where
  "exportAllData now ls =
     fmap_of_list
       [(''projects'', getProjects ls),
        (''categories'', getCategories ls),
        (''tags'', getTags ls),
        (''favorites'', getFavorites ls),
        (''settings'', getSettings ls),
        (''exportedAt'', JStr now)]"

text \<open>
  \<^verbatim>\<open>importData(data)\<close>: five statements \<^verbatim>\<open>if (data.k) write(data.k)\<close>, in the source's
  order. \<open>when_truthy\<close> is one such statement.
\<close>

definition when_truthy ::
  "json option \<Rightarrow> (local_storage \<Rightarrow> json \<Rightarrow> local_storage) \<Rightarrow> local_storage \<Rightarrow> local_storage" where
  "when_truthy field write ls =
     (case field of
        None \<Rightarrow> ls
      | Some v \<Rightarrow> if truthy v then write ls v else ls)"

definition set_favorites :: "local_storage \<Rightarrow> json \<Rightarrow> local_storage" where
  "set_favorites ls favorites = snd (set_value ls KEYS_FAVORITES favorites)"

definition importData :: "local_storage \<Rightarrow> object \<Rightarrow> local_storage" where
  "importData ls data =
     (let ls1 = when_truthy (fmlookup data ''projects'') setProjects ls;
          ls2 = when_truthy (fmlookup data ''categories'') setCategories ls1;
          ls3 = when_truthy (fmlookup data ''tags'') setTags ls2;
          ls4 = when_truthy (fmlookup data ''favorites'') set_favorites ls3
      in when_truthy (fmlookup data ''settings'') setSettings ls4)"

text \<open>
  The media that the module's writes produce. Every write of \<^verbatim>\<open>storage.js\<close> is a
  \<^verbatim>\<open>set\<close>, and the one \<^verbatim>\<open>set\<close> under the settings key is that of \<^verbatim>\<open>setSettings\<close>
  (no caller of the exported \<^verbatim>\<open>set\<close> names that key); \<^verbatim>\<open>remove\<close> is the one other change.
  The medium starts without any of the module's keys.
\<close>

inductive_set module_states :: "local_storage set" where
  fresh: "\<lparr>items = fmempty, accepts = a\<rparr> \<in> module_states"
| written: "ls \<in> module_states \<Longrightarrow> key \<noteq> KEYS_SETTINGS \<Longrightarrow>
     snd (set_value ls key v) \<in> module_states"
| settings: "ls \<in> module_states \<Longrightarrow> setSettings ls s \<in> module_states"
| removed: "ls \<in> module_states \<Longrightarrow> remove_key ls key \<in> module_states"

section \<open>The sync coordinator (the admin page's API helpers)\<close>

text \<open>
  \<^verbatim>\<open>apiRequest(endpoint, options)\<close> sends one request and returns the JSON of the response;
  \<^verbatim>\<open>fetch\<close> or \<^verbatim>\<open>response.json()\<close> may throw. The remote side is a function from the
  request to that outcome (the headers play no part below and are left out). Each
  operation returns the requests it has sent, beside its result.
\<close>

record request =
  endpoint :: string
  http_method :: string
  body :: "stored option"

type_synonym remote = "request \<Rightarrow> error + json"

definition apiRequest :: "remote \<Rightarrow> request \<Rightarrow> error + json" where
  "apiRequest remote req = remote req"

text \<open>The requests of lines 199 to 202 and 242 to 244.\<close>

definition add_request :: "object \<Rightarrow> request" where
  "add_request projectData =
     \<lparr>endpoint = ''/projects'', http_method = ''POST'',
      body = Some (JSON_stringify (JObj projectData))\<rparr>"


definition local_result :: json where
  "local_result = JObj (fmap_of_list [(''success'', JBool True), (''local'', JBool True)])"

text \<open>
  \<^verbatim>\<open>addProjectToApi(projectData)\<close>. The \<^verbatim>\<open>catch\<close> block adds the caller's data locally; it
  is entered when the request throws, when \<^verbatim>\<open>result.success\<close> throws (a \<^verbatim>\<open>null\<close>
  result) and when the \<^verbatim>\<open>addProject\<close> of the \<^verbatim>\<open>try\<close> block throws (which it does
  before any write).

  \<^verbatim>\<open>addProject\<close> assigns the fields on the object it is given. After a successful request
  that object is \<^verbatim>\<open>result.project\<close> when truthy, so the result returned holds the
  project as \<^verbatim>\<open>addProject\<close> left it: \<open>with_project\<close>. Otherwise the object is the
  caller's \<^verbatim>\<open>projectData\<close>, and the result is returned as received.
\<close>

definition with_project :: "json \<Rightarrow> json option \<Rightarrow> json \<Rightarrow> json" where
  "with_project result project added =
     (case result of
        JObj r \<Rightarrow> if truthy_opt project then JObj (fmupd ''project'' added r) else result
      | _ \<Rightarrow> result)"

definition add_catch ::
  "string \<Rightarrow> string \<Rightarrow> local_storage \<Rightarrow> object \<Rightarrow> error + (json \<times> local_storage)" where
  "add_catch now today ls projectData =
     (case addProject now today ls (JObj projectData) of
        Inl e \<Rightarrow> Inl e
      | Inr (p, ls') \<Rightarrow> Inr (local_result, ls'))"

definition addProjectToApi ::
  "remote \<Rightarrow> string \<Rightarrow> string \<Rightarrow> local_storage \<Rightarrow> object
     \<Rightarrow> request list \<times> (error + (json \<times> local_storage))" where
  "addProjectToApi remote now today ls projectData =
     (let req = add_request projectData
      in ([req],
          (case apiRequest remote req of
             Inl e \<Rightarrow> add_catch now today ls projectData
           | Inr result \<Rightarrow>
               (case get_prop result ''success'' of
                  Inl e \<Rightarrow> add_catch now today ls projectData
                | Inr success \<Rightarrow>
                    if truthy_opt success then
                      (case get_prop result ''project'' of
                         Inl e \<Rightarrow> add_catch now today ls projectData
                       | Inr project \<Rightarrow>
                           (case addProject now today ls (or_else project (JObj projectData)) of
                              Inl e \<Rightarrow> add_catch now today ls projectData
                            | Inr (added, ls') \<Rightarrow>
                                Inr (with_project result project added, ls')))
                    else Inr (result, ls)))))"





text \<open>
  Remote sides for concrete runs: unreachable, refusing, accepting, and one that answers
  with the project under an id of its own, as the server's handler does.
\<close>

definition unreachable :: remote where
  "unreachable req = Inl NetworkError"





section \<open>The query engine\<close>

text \<open>
  The query engine reads fixed fields of its entities, so an entity is a record here, with
  the columns of \<^verbatim>\<open>schema.sql\<close> that the engine reads. A column that may be absent or
  \<^verbatim>\<open>null\<close> is an option. Strings are lists of 8-bit characters, and
  \<^verbatim>\<open>toLowerCase\<close> maps the ASCII capitals only.
\<close>

record project =
  ident :: string
  name :: string
  owner :: string
  description :: "string option"
  language :: "string option"
  category :: "string option"
  tags :: "string list option"
  stars :: int
  updated_at :: string

definition lower_char :: "char \<Rightarrow> char" where
  "lower_char c =
     (case map_of (zip ''ABCDEFGHIJKLMNOPQRSTUVWXYZ'' ''abcdefghijklmnopqrstuvwxyz'') c of
        None \<Rightarrow> c
      | Some l \<Rightarrow> l)"

definition toLowerCase :: "string \<Rightarrow> string" where
  "toLowerCase s = map lower_char s"

text \<open>
  \<^verbatim>\<open>searchProjects(projects, query)\<close>; \<open>matches\<close> is the callback of \<^verbatim>\<open>filter\<close>, with its
  five tests in the source's order. \<^verbatim>\<open>!query\<close> holds of the empty string only.
\<close>

definition matches :: "string \<Rightarrow> project \<Rightarrow> bool" where
  "matches lowerQuery p =
     (if str_includes (toLowerCase (name p)) lowerQuery then True
      else if str_includes (toLowerCase (owner p)) lowerQuery then True
      else if (case description p of
                 None \<Rightarrow> False
               | Some d \<Rightarrow> d \<noteq> [] \<and> str_includes (toLowerCase d) lowerQuery) then True
      else if (case language p of
                 None \<Rightarrow> False
               | Some l \<Rightarrow> l \<noteq> [] \<and> str_includes (toLowerCase l) lowerQuery) then True
      else if (case tags p of
                 None \<Rightarrow> False
               | Some ts \<Rightarrow> list_ex (\<lambda>tag. str_includes (toLowerCase tag) lowerQuery) ts) then True
      else False)"

definition searchProjects :: "project list \<Rightarrow> string \<Rightarrow> project list" where
  "searchProjects projects query =
     (if query = [] then projects
      else filter (matches (toLowerCase query)) projects)"

text \<open>The filter state of the panel: \<^verbatim>\<open>{ language, category, sort, showFavorites }\<close>.\<close>

record filters =
  flt_language :: string
  flt_category :: string
  flt_sort :: string
  showFavorites :: bool

text \<open>The three filter statements of \<^verbatim>\<open>applyFilters\<close>, each on the running result.\<close>

definition by_language :: "filters \<Rightarrow> project list \<Rightarrow> project list" where
  "by_language f result =
     (if flt_language f \<noteq> [] \<and> flt_language f \<noteq> ''all''
      then filter (\<lambda>p. language p = Some (flt_language f)) result
      else result)"

definition by_category :: "filters \<Rightarrow> project list \<Rightarrow> project list" where
  "by_category f result =
     (if flt_category f \<noteq> [] \<and> flt_category f \<noteq> ''all''
      then filter (\<lambda>p. category p = Some (flt_category f)) result
      else result)"

definition by_favorites :: "filters \<Rightarrow> string list \<Rightarrow> project list \<Rightarrow> project list" where
  "by_favorites f favorites result =
     (if showFavorites f
      then filter (\<lambda>p. ident p \<in> set favorites) result
      else result)"

text \<open>\<^verbatim>\<open>const [field, order] = filters.sort.split('-')\<close>.\<close>

fun split_on :: "char \<Rightarrow> string \<Rightarrow> string list" where
  "split_on d [] = [[]]"
| "split_on d (c # cs) =
     (if c = d then [] # split_on d cs
      else (case split_on d cs of
              [] \<Rightarrow> [[c]]
            | w # ws \<Rightarrow> (c # w) # ws))"

definition parse_sort :: "string \<Rightarrow> string \<times> string option" where
  "parse_sort s =
     (case split_on (CHR ''-'') s of
        [] \<Rightarrow> ([], None)
      | [field] \<Rightarrow> (field, None)
      | field # ord # rest \<Rightarrow> (field, Some ord))"

text \<open>
  The comparison callback. \<^verbatim>\<open>localeCompare\<close> and \<^verbatim>\<open>new Date(s).getTime()\<close> are inputs
  (the second is \<open>None\<close> for \<^verbatim>\<open>NaN\<close>, an invalid date); a \<^verbatim>\<open>NaN\<close> difference counts as
  0 in \<^verbatim>\<open>sort\<close>. Any order but \<^verbatim>\<open>'asc'\<close> is descending.
\<close>

definition numeric :: "string option \<Rightarrow> int option \<Rightarrow> int option \<Rightarrow> int" where
  "numeric ord valueA valueB =
     (case (valueA, valueB) of
        (Some x, Some y) \<Rightarrow> if ord = Some ''asc'' then x - y else y - x
      | _ \<Rightarrow> 0)"

definition compare_projects ::
  "(string \<Rightarrow> string \<Rightarrow> int) \<Rightarrow> (string \<Rightarrow> int option) \<Rightarrow> string \<Rightarrow> string option
     \<Rightarrow> project \<Rightarrow> project \<Rightarrow> int" where
  "compare_projects localeCompare getTime field ord a b =
     (if field = ''stars'' then numeric ord (Some (stars a)) (Some (stars b))
      else if field = ''name'' then
        (if ord = Some ''asc''
         then localeCompare (toLowerCase (name a)) (toLowerCase (name b))
         else localeCompare (toLowerCase (name b)) (toLowerCase (name a)))
      else if field = ''updated'' then
        numeric ord (getTime (updated_at a)) (getTime (updated_at b))
      else 0)"

text \<open>
  \<^verbatim>\<open>Array.prototype.sort(compare)\<close> is a builtin that ECMAScript requires to be stable: it
  is an insertion sort here, which keeps \<open>x\<close> before \<open>y\<close> unless \<open>compare x y\<close> is
  positive.
\<close>

fun insert_by :: "('a \<Rightarrow> 'a \<Rightarrow> int) \<Rightarrow> 'a \<Rightarrow> 'a list \<Rightarrow> 'a list" where
  "insert_by cmp x [] = [x]"
| "insert_by cmp x (y # ys) = (if cmp x y \<le> 0 then x # y # ys else y # insert_by cmp x ys)"

fun sort_by :: "('a \<Rightarrow> 'a \<Rightarrow> int) \<Rightarrow> 'a list \<Rightarrow> 'a list" where
  "sort_by cmp [] = []"
| "sort_by cmp (x # xs) = insert_by cmp x (sort_by cmp xs)"

definition sort_stage ::
  "(string \<Rightarrow> string \<Rightarrow> int) \<Rightarrow> (string \<Rightarrow> int option) \<Rightarrow> filters
     \<Rightarrow> project list \<Rightarrow> project list" where
  "sort_stage localeCompare getTime f result =
     (if flt_sort f \<noteq> []
      then (case parse_sort (flt_sort f) of
              (field, ord) \<Rightarrow> sort_by (compare_projects localeCompare getTime field ord) result)
      else result)"

text \<open>\<^verbatim>\<open>applyFilters(projects, filters, favorites)\<close>: the four statements in sequence.\<close>

definition applyFilters ::
  "(string \<Rightarrow> string \<Rightarrow> int) \<Rightarrow> (string \<Rightarrow> int option) \<Rightarrow> project list \<Rightarrow> filters
     \<Rightarrow> string list \<Rightarrow> project list" where
  "applyFilters localeCompare getTime projects f favorites =
     sort_stage localeCompare getTime f
       (by_favorites f favorites (by_category f (by_language f projects)))"

section \<open>Observations used in the statements\<close>

text \<open>The medium takes every write under the key, whatever it holds.\<close>

definition writable :: "local_storage \<Rightarrow> string \<Rightarrow> bool" where
  "writable ls key = (\<forall>m t. accepts ls m key t)"

text \<open>The stored projects after an operation that returns a result and the medium.\<close>

definition projects_after :: "error + ('a \<times> local_storage) \<Rightarrow> error + json" where
  "projects_after r =
     (case r of
        Inl e \<Rightarrow> Inl e
      | Inr (x, ls') \<Rightarrow> Inr (getProjects ls'))"

text \<open>The stored favorites after \<^verbatim>\<open>toggleFavorite(projectId)\<close> is called twice in a row.\<close>

definition toggle_twice :: "local_storage \<Rightarrow> string \<Rightarrow> error + json" where
  "toggle_twice ls projectId =
     (case toggleFavorite ls projectId of
        Inl e \<Rightarrow> Inl e
      | Inr (r1, ls1) \<Rightarrow>
          (case toggleFavorite ls1 projectId of
             Inl e \<Rightarrow> Inl e
           | Inr (r2, ls2) \<Rightarrow> Inr (getFavorites ls2)))"

text \<open>
  What \<^verbatim>\<open>toggleFavorite(projectId)\<close> returns, and what \<^verbatim>\<open>isFavorite(projectId)\<close> returns
  right after it.
\<close>

definition toggle_then_isFavorite :: "local_storage \<Rightarrow> string \<Rightarrow> error + (bool \<times> bool)" where
  "toggle_then_isFavorite ls projectId =
     (case toggleFavorite ls projectId of
        Inl e \<Rightarrow> Inl e
      | Inr (returned, ls1) \<Rightarrow>
          (case isFavorite ls1 projectId of
             Inl e \<Rightarrow> Inl e
           | Inr favorite \<Rightarrow> Inr (returned, favorite)))"

section \<open>Concrete inputs\<close>

text \<open>Entities of the query engine, and stand-ins for the two builtins of the sort.\<close>

definition vue :: project where
  "vue = \<lparr>ident = ''1'', name = ''vue'', owner = ''vuejs'', description = None,
     language = Some ''TypeScript'', category = Some ''framework'', tags = Some [''ui''],
     stars = 500, updated_at = ''2024-01-01''\<rparr>"

definition curl :: project where
  "curl = \<lparr>ident = ''2'', name = ''curl'', owner = ''curl'', description = Some ''a URL tool'',
     language = Some ''C'', category = Some ''tool'', tags = None,
     stars = 10000, updated_at = ''2023-06-30''\<rparr>"

definition deno :: project where
  "deno = \<lparr>ident = ''3'', name = ''deno'', owner = ''denoland'', description = Some [],
     language = Some ''TypeScript'', category = Some ''tool'', tags = Some [],
     stars = 10, updated_at = ''2024-03-05''\<rparr>"

definition no_locale :: "string \<Rightarrow> string \<Rightarrow> int" where
  "no_locale a b = 0"

definition no_dates :: "string \<Rightarrow> int option" where
  "no_dates s = None"

text \<open>Entities of the storage layer and media.\<close>

definition jq :: object where
  "jq = fmap_of_list
     [(''id'', JStr ''7''), (''name'', JStr ''jq''), (''owner'', JStr ''jqlang''),
      (''created_at'', JStr ''2020-01-01''), (''updated_at'', JStr ''2020-01-01'')]"

definition form_data :: object where
  "form_data = fmap_of_list
     [(''name'', JStr ''fzf''), (''owner'', JStr ''junegunn''), (''stars'', JNum 60000)]"


definition theme_as_string :: local_storage where
  "theme_as_string =
     \<lparr>items = fmap_of_list [(KEYS_SETTINGS, Serialized (JStr ''light''))],
      accepts = unlimited\<rparr>"

definition backup_file :: object where
  "backup_file = fmap_of_list [(''favorites'', JArr [JStr ''7'', JStr ''7''])]"

definition twice_favorite :: local_storage where
  "twice_favorite = importData \<lparr>items = fmempty, accepts = unlimited\<rparr> backup_file"


definition full_store :: local_storage where
  "full_store =
     \<lparr>items = fmap_of_list
        [(KEYS_PROJECTS, Serialized (JArr [JObj jq])),
         (KEYS_FAVORITES, Serialized (JObj fmempty))],
      accepts = exhausted\<rparr>"

section \<open>Reading the cache\<close>

lemma get_absent: "getItem ls key = None \<Longrightarrow> get ls key d = d"
  by (simp add: get_def get_body_def)

lemma get_garbage: "getItem ls key = Some (Garbage s) \<Longrightarrow> get ls key d = d"
  by (simp add: get_def get_body_def)

lemma get_serialized: "getItem ls key = Some (Serialized v) \<Longrightarrow> get ls key d = v"
  by (simp add: get_def get_body_def)

text \<open>
  C9. \<^verbatim>\<open>get(key, default)\<close> returns the caller's default when nothing is stored under the
  key, and when the stored text fails to parse; it never throws: its result is a value,
  the error of the \<^verbatim>\<open>try\<close> body (\<open>get_body\<close>) is caught.
\<close>

theorem get_returns_default:
  "(getItem ls key = None \<or> (\<exists>item e. getItem ls key = Some item \<and> JSON_parse item = Inl e))
     \<Longrightarrow> get ls key defaultValue = defaultValue"
  by (auto simp: get_def get_body_def)

theorem get_returns_default_witness:
  "get \<lparr>items = fmupd KEYS_PROJECTS (Garbage ''[{'') fmempty, accepts = unlimited\<rparr>
       KEYS_PROJECTS (JArr []) = JArr []
   \<and> get \<lparr>items = fmupd KEYS_PROJECTS (Garbage ''[{'') fmempty, accepts = unlimited\<rparr>
       KEYS_TAGS (JNum 7) = JNum 7
   \<and> get_body \<lparr>items = fmupd KEYS_PROJECTS (Garbage ''[{'') fmempty, accepts = unlimited\<rparr>
       KEYS_PROJECTS (JArr []) = Inl SyntaxError"
proof -
  let ?ls = "\<lparr>items = fmupd KEYS_PROJECTS (Garbage ''[{'') fmempty, accepts = unlimited\<rparr>"
  have a: "getItem ?ls KEYS_PROJECTS = Some (Garbage ''[{'')"
    by (simp add: getItem_def)
  have b: "getItem ?ls KEYS_TAGS = None"
    by (simp add: getItem_def KEYS_PROJECTS_def KEYS_TAGS_def STORAGE_PREFIX_def)
  have "get ?ls KEYS_PROJECTS (JArr []) = JArr []"
    using get_returns_default [of ?ls KEYS_PROJECTS "JArr []"] a by simp
  moreover have "get ?ls KEYS_TAGS (JNum 7) = JNum 7"
    using get_returns_default [of ?ls KEYS_TAGS "JNum 7"] b by simp
  moreover have "get_body ?ls KEYS_PROJECTS (JArr []) = Inl SyntaxError"
    using a by (simp add: get_body_def)
  ultimately show ?thesis by simp
qed

section \<open>Writing the cache\<close>

lemma keys_distinct:
  "KEYS_PROJECTS \<noteq> KEYS_CATEGORIES" "KEYS_PROJECTS \<noteq> KEYS_TAGS"
  "KEYS_PROJECTS \<noteq> KEYS_FAVORITES" "KEYS_PROJECTS \<noteq> KEYS_SETTINGS"
  "KEYS_CATEGORIES \<noteq> KEYS_TAGS" "KEYS_CATEGORIES \<noteq> KEYS_FAVORITES"
  "KEYS_CATEGORIES \<noteq> KEYS_SETTINGS" "KEYS_TAGS \<noteq> KEYS_FAVORITES"
  "KEYS_TAGS \<noteq> KEYS_SETTINGS" "KEYS_FAVORITES \<noteq> KEYS_SETTINGS"
  by (simp_all add: KEYS_PROJECTS_def KEYS_CATEGORIES_def KEYS_TAGS_def KEYS_FAVORITES_def
      KEYS_SETTINGS_def STORAGE_PREFIX_def)

text \<open>A write is taken, and then stored, or refused, and then the medium is as it was.\<close>

lemma set_value_cases:
  "(accepts ls (items ls) key (Serialized v)
      \<and> set_value ls key v = (True, ls\<lparr>items := fmupd key (Serialized v) (items ls)\<rparr>))
   \<or> (\<not> accepts ls (items ls) key (Serialized v) \<and> set_value ls key v = (False, ls))"
  by (simp add: set_value_def setItem_def JSON_stringify_def)



lemma get_after_write:
  "writable ls key \<Longrightarrow> get (snd (set_value ls key v)) key d = v"
  by (simp add: writable_def set_value_def setItem_def get_def get_body_def getItem_def
      JSON_stringify_def)

lemma writable_after_write:
  "writable ls key \<Longrightarrow> writable (snd (set_value ls key' v)) key"
  using set_value_cases [of ls key' v] by (auto simp: writable_def)


text \<open>
  What the conditions of the statements below keep out: a refused write leaves the stored
  projects as they were, though \<^verbatim>\<open>updateProject\<close> returns the merged entry; favorites
  that are not an array make \<^verbatim>\<open>toggleFavorite\<close> throw; a \<^verbatim>\<open>null\<close> among the projects
  makes \<^verbatim>\<open>deleteProject\<close> throw.
\<close>

lemma updateProject_refused_write:
  "map_sum id fst (updateProject ''2026-11-03'' full_store ''7'' (JObj fmempty))
     = Inr (JObj (fmap_of_list
         [(''id'', JStr ''7''), (''name'', JStr ''jq''), (''owner'', JStr ''jqlang''),
          (''created_at'', JStr ''2020-01-01''), (''updated_at'', JStr ''2026-11-03'')]))
   \<and> projects_after (updateProject ''2026-11-03'' full_store ''7'' (JObj fmempty))
     = Inr (JArr [JObj (fmap_of_list
         [(''id'', JStr ''7''), (''name'', JStr ''jq''), (''owner'', JStr ''jqlang''),
          (''created_at'', JStr ''2020-01-01''), (''updated_at'', JStr ''2020-01-01'')])])"
  by code_simp

lemma toggleFavorite_not_an_array:
  "getFavorites full_store = JObj fmempty \<and> toggleFavorite full_store ''7'' = Inl TypeError"
proof -
  have "getFavorites full_store = JObj fmempty"
    by code_simp
  then show ?thesis
    by (simp add: toggleFavorite_def)
qed

lemma deleteProject_null_entry:
  "getProjects ls = JArr ps \<Longrightarrow> JNull \<in> set ps \<Longrightarrow> deleteProject ls pid = Inl TypeError"
proof -
  assume stored: "getProjects ls = JArr ps" and null: "JNull \<in> set ps"
  from null have "filter_other_ids pid ps = Inl TypeError"
  proof (induction ps)
    case Nil
    then show ?case by simp
  next
    case (Cons p ps)
    show ?case
    proof (cases p)
      case JNull
      then show ?thesis by simp
    qed (use Cons in \<open>auto split: sum.splits\<close>)
  qed
  with stored show ?thesis by (simp add: deleteProject_def)
qed

section \<open>Export and import\<close>








text \<open>
  What holds of every medium that the module's writes produce: the settings key is absent
  or holds an object. The operations of the module stay within these media.
\<close>

lemma module_states_settings:
  "ls \<in> module_states \<Longrightarrow>
     getItem ls KEYS_SETTINGS = None
     \<or> (\<exists>m. getItem ls KEYS_SETTINGS = Some (Serialized (JObj m)))"
proof (induction rule: module_states.induct)
  case (fresh a)
  show ?case by (simp add: getItem_def)
next
  case (written ls key v)
  with set_value_cases [of ls key v] show ?case
    by (auto simp: getItem_def)
next
  case (settings ls s)
  let ?v = "JObj (own_props (getSettings ls) ++\<^sub>f own_props s)"
  from settings set_value_cases [of ls KEYS_SETTINGS ?v] show ?case
    by (auto simp: setSettings_def getItem_def)
next
  case (removed ls key)
  then show ?case
    by (auto simp: remove_key_def removeItem_def getItem_def)
qed


lemma module_states_writers:
  assumes "ls \<in> module_states"
  shows "setProjects ls v \<in> module_states" "setCategories ls v \<in> module_states"
    "setTags ls v \<in> module_states" "set_favorites ls v \<in> module_states"
  using assms keys_distinct
  by (simp_all add: setProjects_def setCategories_def setTags_def set_favorites_def
      module_states.written)

lemma module_states_when_truthy:
  assumes "ls \<in> module_states" "\<And>l v. l \<in> module_states \<Longrightarrow> write l v \<in> module_states"
  shows "when_truthy field write ls \<in> module_states"
  using assms by (simp add: when_truthy_def split: option.splits)

lemma module_states_importData:
  "ls \<in> module_states \<Longrightarrow> importData ls data \<in> module_states"
  by (simp add: importData_def Let_def module_states_when_truthy module_states_writers
      module_states.settings)

lemma module_states_clear: "ls \<in> module_states \<Longrightarrow> clear_keys ls \<in> module_states"
  by (simp add: clear_keys_def module_states.removed)

lemma module_states_addProject:
  "ls \<in> module_states \<Longrightarrow> addProject now today ls project = Inr (p, ls') \<Longrightarrow>
     ls' \<in> module_states"
  by (auto simp: addProject_def module_states_writers split: sum.splits json.splits)

lemma module_states_updateProject:
  "ls \<in> module_states \<Longrightarrow> updateProject today ls pid updates = Inr (p, ls') \<Longrightarrow>
     ls' \<in> module_states"
  by (auto simp: updateProject_def Let_def module_states_writers
      split: sum.splits json.splits option.splits)

lemma module_states_deleteProject:
  "ls \<in> module_states \<Longrightarrow> deleteProject ls pid = Inr ls' \<Longrightarrow> ls' \<in> module_states"
  by (auto simp: deleteProject_def module_states_writers split: sum.splits json.splits)

lemma module_states_toggleFavorite:
  "ls \<in> module_states \<Longrightarrow> toggleFavorite ls pid = Inr (r, ls') \<Longrightarrow> ls' \<in> module_states"
  using keys_distinct
  by (auto simp: toggleFavorite_def module_states.written split: json.splits option.splits)


lemma twice_favorite_member: "twice_favorite \<in> module_states"
  unfolding twice_favorite_def
  by (intro module_states_importData module_states.fresh)



text \<open>
  Outside these media the round trip can change the settings: with the string
  \<^verbatim>\<open>"light"\<close> under the settings key, which no write of the module puts there,
  \<^verbatim>\<open>setSettings\<close> spreads the string into an object of its characters.
\<close>

lemma roundtrip_of_foreign_settings:
  "getSettings theme_as_string = JStr ''light''
   \<and> getSettings (importData theme_as_string
         (exportAllData ''2026-11-03T09:00:00.000Z'' theme_as_string))
       = JObj (fmap_of_list
           [(''0'', JStr ''l''), (''1'', JStr ''i''), (''2'', JStr ''g''), (''3'', JStr ''h''),
            (''4'', JStr ''t'')])"
  by code_simp

lemma foreign_settings_not_written: "theme_as_string \<notin> module_states"
proof
  assume "theme_as_string \<in> module_states"
  from module_states_settings [OF this] show False
    by (simp add: theme_as_string_def getItem_def)
qed

section \<open>Updating a project\<close>





section \<open>Favorites\<close>

lemma indexOf_None: "(indexOf xs s = None) = (JStr s \<notin> set xs)"
  by (induction xs) (auto split: option.splits)

lemma indexOf_append_new:
  "JStr s \<notin> set xs \<Longrightarrow> indexOf (xs @ [JStr s]) s = Some (length xs)"
proof (induction xs)
  case Nil
  show ?case by simp
next
  case (Cons x xs)
  then have "x \<noteq> JStr s" and "JStr s \<notin> set xs" by auto
  with Cons.IH show ?case by simp
qed

lemma indexOf_Some:
  "indexOf xs s = Some i \<Longrightarrow> i < length xs \<and> xs ! i = JStr s"
proof (induction xs arbitrary: i)
  case Nil
  then show ?case by simp
next
  case (Cons x xs)
  then show ?case
    by (cases "x = JStr s") (auto split: option.splits)
qed

lemma splice1_once:
  assumes once: "count_list xs x \<le> 1" and i: "i < length xs" and at: "xs ! i = x"
  shows "set (splice1 i xs) = set xs - {x}"
proof -
  have xs: "xs = take i xs @ x # drop (Suc i) xs"
    using id_take_nth_drop [OF i] unfolding at .
  have "count_list (take i xs @ x # drop (Suc i) xs) x \<le> 1"
    using once xs by simp
  then have "count_list (take i xs) x = 0" "count_list (drop (Suc i) xs) x = 0"
    by (simp_all add: count_list_append)
  then have out: "x \<notin> set (take i xs)" "x \<notin> set (drop (Suc i) xs)"
    by (simp_all add: count_list_0_iff)
  have "set xs = set (take i xs) \<union> {x} \<union> set (drop (Suc i) xs)"
    by (subst xs) auto
  with out show ?thesis by (auto simp: splice1_def)
qed

text \<open>
  On every stored array \<^verbatim>\<open>toggleFavorite\<close> returns true exactly when the id was not in
  it, which is when \<^verbatim>\<open>isFavorite\<close> was false.
\<close>

lemma toggleFavorite_returns:
  assumes stored: "getFavorites ls = JArr fs"
  shows "(\<exists>ls1. toggleFavorite ls pid = Inr (JStr pid \<notin> set fs, ls1))
    \<and> isFavorite ls pid = Inr (JStr pid \<in> set fs)"
proof
  show "\<exists>ls1. toggleFavorite ls pid = Inr (JStr pid \<notin> set fs, ls1)"
  proof (cases "indexOf fs pid")
    case None
    then have "JStr pid \<notin> set fs" by (simp add: indexOf_None)
    with None stored show ?thesis by (simp add: toggleFavorite_def)
  next
    case (Some i)
    then have "JStr pid \<in> set fs" using indexOf_None [of fs pid] by simp
    with Some stored show ?thesis by (simp add: toggleFavorite_def)
  qed
  show "isFavorite ls pid = Inr (JStr pid \<in> set fs)"
    using stored by (simp add: isFavorite_def)
qed

text \<open>
  When the id occurs at most once in the stored array and the medium takes the writes, two
  calls in a row leave an array with the same set of elements as before.
\<close>

lemma toggle_twice_restores:
  assumes stored: "getFavorites ls = JArr fs"
    and once: "count_list fs (JStr pid) \<le> 1"
    and w: "writable ls KEYS_FAVORITES"
  shows "\<exists>fs2. toggle_twice ls pid = Inr (JArr fs2) \<and> set fs2 = set fs"
proof (cases "indexOf fs pid")
  case None
  then have absent: "JStr pid \<notin> set fs" by (simp add: indexOf_None)
  let ?ls1 = "snd (set_value ls KEYS_FAVORITES (JArr (fs @ [JStr pid])))"
  have first: "toggleFavorite ls pid = Inr (True, ?ls1)"
    using stored None by (simp add: toggleFavorite_def)
  have read1: "getFavorites ?ls1 = JArr (fs @ [JStr pid])"
    using w by (simp add: getFavorites_def get_after_write)
  have w1: "writable ?ls1 KEYS_FAVORITES"
    using w by (rule writable_after_write)
  have at: "indexOf (fs @ [JStr pid]) pid = Some (length fs)"
    using absent by (rule indexOf_append_new)
  let ?ls2 = "snd (set_value ?ls1 KEYS_FAVORITES (JArr (splice1 (length fs) (fs @ [JStr pid]))))"
  have second: "toggleFavorite ?ls1 pid = Inr (False, ?ls2)"
    using read1 at by (simp add: toggleFavorite_def)
  have read2: "getFavorites ?ls2 = JArr (splice1 (length fs) (fs @ [JStr pid]))"
    using w1 by (simp add: getFavorites_def get_after_write)
  have "splice1 (length fs) (fs @ [JStr pid]) = fs"
    by (simp add: splice1_def)
  with first second read2 show ?thesis
    by (simp add: toggle_twice_def)
next
  case (Some i)
  from indexOf_Some [OF Some] have i: "i < length fs" "fs ! i = JStr pid" by simp_all
  let ?rest = "splice1 i fs"
  let ?ls1 = "snd (set_value ls KEYS_FAVORITES (JArr ?rest))"
  have first: "toggleFavorite ls pid = Inr (False, ?ls1)"
    using stored Some by (simp add: toggleFavorite_def)
  have read1: "getFavorites ?ls1 = JArr ?rest"
    using w by (simp add: getFavorites_def get_after_write)
  have w1: "writable ?ls1 KEYS_FAVORITES"
    using w by (rule writable_after_write)
  have rest: "set ?rest = set fs - {JStr pid}"
    using once i by (rule splice1_once)
  then have gone: "indexOf ?rest pid = None"
    by (simp add: indexOf_None)
  let ?ls2 = "snd (set_value ?ls1 KEYS_FAVORITES (JArr (?rest @ [JStr pid])))"
  have second: "toggleFavorite ?ls1 pid = Inr (True, ?ls2)"
    using read1 gone by (simp add: toggleFavorite_def)
  have read2: "getFavorites ?ls2 = JArr (?rest @ [JStr pid])"
    using w1 by (simp add: getFavorites_def get_after_write)
  have "JStr pid \<in> set fs"
    using Some indexOf_None [of fs pid] by simp
  then have "set (?rest @ [JStr pid]) = set fs"
    unfolding set_append rest by auto
  with first second read2 show ?thesis
    by (simp add: toggle_twice_def)
qed

text \<open>
  C10. Two calls of \<^verbatim>\<open>toggleFavorite\<close> in a row should restore the set of favorites. They
  do not when the stored array holds the id twice, as it does after \<^verbatim>\<open>importData\<close> of a
  backup file whose favorites name the id twice: \<^verbatim>\<open>splice(index, 1)\<close> removes one
  occurrence. The first call returns false, which its documentation calls the favorite
  state after the toggle, while \<^verbatim>\<open>isFavorite\<close> still returns true; the second call
  returns false again, and the id, a favorite before, is none after the two calls.
\<close>

theorem toggleFavorite_duplicates:
  "getFavorites twice_favorite = JArr [JStr ''7'', JStr ''7'']
   \<and> isFavorite twice_favorite ''7'' = Inr True
   \<and> toggle_then_isFavorite twice_favorite ''7'' = Inr (False, True)
   \<and> toggle_twice twice_favorite ''7'' = Inr (JArr [])"
  by code_simp

section \<open>Deleting through the API\<close>






section \<open>Creating through the API\<close>





text \<open>
  What the conditions keep out: on a medium that takes no write, a thrown request still
  returns \<^verbatim>\<open>{ success: true, local: true }\<close>, and nothing is appended.
\<close>

lemma addProjectToApi_refused_write:
  "map_sum id fst
     (snd (addProjectToApi unreachable ''1762160400000'' ''2026-11-03'' full_store form_data))
     = Inr (JObj (fmap_of_list [(''success'', JBool True), (''local'', JBool True)]))
   \<and> projects_after
       (snd (addProjectToApi unreachable ''1762160400000'' ''2026-11-03'' full_store form_data))
     = Inr (JArr [JObj (fmap_of_list
         [(''id'', JStr ''7''), (''name'', JStr ''jq''), (''owner'', JStr ''jqlang''),
          (''created_at'', JStr ''2020-01-01''), (''updated_at'', JStr ''2020-01-01'')])])"
  by code_simp


section \<open>Searching\<close>

text \<open>
  C4, as the code has it. \<^verbatim>\<open>searchProjects\<close> returns its input list itself for the empty
  query. (The test is \<^verbatim>\<open>!query\<close>; the search bar trims what the user types before it
  calls, so a blank query reaches the function as the empty one.)
\<close>

theorem searchProjects_empty_query:
  "searchProjects projects [] = projects"
  by (simp add: searchProjects_def)

theorem searchProjects_empty_query_witness:
  "searchProjects [vue, curl] [] = [vue, curl]"
  using searchProjects_empty_query [of "[vue, curl]"] by simp

text \<open>
  C4 as stated fails for a query of whitespace only: one space is a truthy string, the
  list is filtered for entities that contain a space, and \<^verbatim>\<open>vue\<close> has none.
\<close>

theorem searchProjects_blank_query_counterexample:
  "searchProjects [vue, curl] '' '' = [curl] \<and> searchProjects [vue, curl] '' '' \<noteq> [vue, curl]"
  by (simp add: searchProjects_def matches_def toLowerCase_def lower_char_def vue_def curl_def)

text \<open>
  C5. For a non-empty query, every element of the result is an element of the input, and
  so is every id of the result an id of the input.
\<close>

theorem searchProjects_subset:
  "query \<noteq> [] \<Longrightarrow>
     set (searchProjects projects query) \<subseteq> set projects
     \<and> set (map ident (searchProjects projects query)) \<subseteq> set (map ident projects)"
  by (auto simp: searchProjects_def)

theorem searchProjects_subset_witness:
  "''script'' \<noteq> []
   \<and> searchProjects [vue, curl, deno] ''script'' = [vue, deno]
   \<and> set (searchProjects [vue, curl, deno] ''script'') \<subseteq> set [vue, curl, deno]
   \<and> set (map ident (searchProjects [vue, curl, deno] ''script''))
       \<subseteq> set (map ident [vue, curl, deno])"
proof -
  have run: "searchProjects [vue, curl, deno] ''script'' = [vue, deno]"
    by (simp add: searchProjects_def matches_def toLowerCase_def lower_char_def
        vue_def curl_def deno_def)
  have "(''script'' :: string) \<noteq> []" by simp
  from searchProjects_subset [OF this, of "[vue, curl, deno]"] run show ?thesis by simp
qed

section \<open>Filtering and sorting\<close>

lemma language_category: "by_language f (by_category f ps) = by_category f (by_language f ps)"
  by (simp add: by_language_def by_category_def conj_commute)

lemma language_favorites:
  "by_language f (by_favorites f favs ps) = by_favorites f favs (by_language f ps)"
  by (simp add: by_language_def by_favorites_def conj_commute)

lemma category_favorites:
  "by_category f (by_favorites f favs ps) = by_favorites f favs (by_category f ps)"
  by (simp add: by_category_def by_favorites_def conj_commute)

text \<open>
  C6. The three filter statements of \<^verbatim>\<open>applyFilters\<close> give the same list in each of the
  six orders (the same elements in the same order, hence the same set), and so the same
  result of \<^verbatim>\<open>applyFilters\<close> after the sort.
\<close>

theorem filters_any_order:
  "by_favorites f favs (by_language f (by_category f ps))
     = by_favorites f favs (by_category f (by_language f ps))
   \<and> by_category f (by_favorites f favs (by_language f ps))
     = by_favorites f favs (by_category f (by_language f ps))
   \<and> by_category f (by_language f (by_favorites f favs ps))
     = by_favorites f favs (by_category f (by_language f ps))
   \<and> by_language f (by_favorites f favs (by_category f ps))
     = by_favorites f favs (by_category f (by_language f ps))
   \<and> by_language f (by_category f (by_favorites f favs ps))
     = by_favorites f favs (by_category f (by_language f ps))
   \<and> applyFilters localeCompare getTime ps f favs
     = sort_stage localeCompare getTime f (by_favorites f favs (by_category f (by_language f ps)))"
  by (simp add: applyFilters_def language_category language_favorites category_favorites)

theorem filters_any_order_witness:
  "by_language \<lparr>flt_language = ''TypeScript'', flt_category = ''tool'', flt_sort = [],
       showFavorites = True\<rparr>
     (by_category \<lparr>flt_language = ''TypeScript'', flt_category = ''tool'', flt_sort = [],
         showFavorites = True\<rparr>
       (by_favorites \<lparr>flt_language = ''TypeScript'', flt_category = ''tool'', flt_sort = [],
           showFavorites = True\<rparr> [''3'', ''1''] [vue, curl, deno]))
   = [deno]
   \<and> by_favorites \<lparr>flt_language = ''TypeScript'', flt_category = ''tool'', flt_sort = [],
       showFavorites = True\<rparr> [''3'', ''1'']
     (by_category \<lparr>flt_language = ''TypeScript'', flt_category = ''tool'', flt_sort = [],
         showFavorites = True\<rparr>
       (by_language \<lparr>flt_language = ''TypeScript'', flt_category = ''tool'', flt_sort = [],
           showFavorites = True\<rparr> [vue, curl, deno]))
   = [deno]"
proof -
  let ?f = "\<lparr>flt_language = ''TypeScript'', flt_category = ''tool'', flt_sort = [],
    showFavorites = True\<rparr>"
  have run: "by_favorites ?f [''3'', ''1''] (by_category ?f (by_language ?f [vue, curl, deno]))
    = [deno]"
    by (simp add: by_favorites_def by_category_def by_language_def vue_def curl_def deno_def)
  from filters_any_order [of ?f "[''3'', ''1'']" "[vue, curl, deno]"] run
  show ?thesis by simp
qed

lemma insert_by_zero: "cmp x = (\<lambda>y. 0) \<Longrightarrow> insert_by cmp x ys = x # ys"
  by (cases ys) simp_all

lemma sort_by_zero: "cmp = (\<lambda>x y. 0) \<Longrightarrow> sort_by cmp xs = xs"
  by (induction xs) (simp_all add: insert_by_zero)

lemma compare_unknown_field:
  "field \<notin> {''stars'', ''name'', ''updated''} \<Longrightarrow>
     compare_projects localeCompare getTime field ord = (\<lambda>a b. 0)"
  by (rule ext, rule ext) (simp add: compare_projects_def)

text \<open>
  C7. When the field part of the sort string (what precedes its first \<^verbatim>\<open>-\<close>) is none of
  \<^verbatim>\<open>stars\<close>, \<^verbatim>\<open>name\<close>, \<^verbatim>\<open>updated\<close>, the comparison is constantly 0 and the stable sort
  returns the filtered projects in their original order.
\<close>

theorem unknown_sort_field_keeps_order:
  "fst (parse_sort (flt_sort f)) \<notin> {''stars'', ''name'', ''updated''} \<Longrightarrow>
     sort_stage localeCompare getTime f result = result
     \<and> applyFilters localeCompare getTime ps f favs
         = by_favorites f favs (by_category f (by_language f ps))"
proof -
  assume unknown: "fst (parse_sort (flt_sort f)) \<notin> {''stars'', ''name'', ''updated''}"
  have stage: "sort_stage localeCompare getTime f r = r" for r
  proof (cases "parse_sort (flt_sort f)")
    case (Pair field ord)
    with unknown have "compare_projects localeCompare getTime field ord = (\<lambda>a b. 0)"
      by (simp add: compare_unknown_field)
    with Pair show ?thesis
      by (simp add: sort_stage_def sort_by_zero)
  qed
  then show ?thesis
    by (simp add: applyFilters_def)
qed

theorem unknown_sort_field_keeps_order_witness:
  "fst (parse_sort ''forks-desc'') = ''forks''
   \<and> applyFilters no_locale no_dates [vue, curl, deno]
       \<lparr>flt_language = ''all'', flt_category = ''tool'', flt_sort = ''forks-desc'',
          showFavorites = False\<rparr> []
     = [curl, deno]"
proof -
  let ?f = "\<lparr>flt_language = ''all'', flt_category = ''tool'', flt_sort = ''forks-desc'',
    showFavorites = False\<rparr>"
  have field: "fst (parse_sort ''forks-desc'') = ''forks''"
    by (simp add: parse_sort_def)
  then have "fst (parse_sort (flt_sort ?f)) \<notin> {''stars'', ''name'', ''updated''}"
    by simp
  from unknown_sort_field_keeps_order [OF this, of no_locale no_dates "[]" "[vue, curl, deno]" "[]"]
  have "applyFilters no_locale no_dates [vue, curl, deno] ?f []
    = by_favorites ?f [] (by_category ?f (by_language ?f [vue, curl, deno]))"
    by simp
  also have "\<dots> = [curl, deno]"
    by (simp add: by_favorites_def by_category_def by_language_def vue_def curl_def deno_def)
  finally show ?thesis using field by simp
qed

end
